theory Spec2Isabelle
  imports Main
begin

section \<open>JavaScript values and prop bags\<close>

text \<open>
  The values a prop can hold. A number is an integer here (the component reads no
  number); an object is the list of its own properties; \<open>JFun\<close> is a function or a
  component, known by its name only.
\<close>

datatype jsval =
    Undefined
  | Null
  | JBool bool
  | JNum int
  | JStr string
  | JObj "(string \<times> jsval) list"
  | JFun string

text \<open>
  A prop bag is an object used as a dictionary. A key can be missing, or present with
  the value \<open>undefined\<close>: \<open>m k = None\<close> and \<open>m k = Some Undefined\<close>. Reading a
  property gives \<open>undefined\<close> in both cases.
\<close>

type_synonym PropBag = "string \<rightharpoonup> jsval"

definition js_get :: "PropBag \<Rightarrow> string \<Rightarrow> jsval" where
  "js_get obj k = (case obj k of None \<Rightarrow> Undefined | Some v \<Rightarrow> v)"

text \<open>Truthiness, as \<open>&&\<close>, \<open>||\<close>, \<open>?:\<close> and \<open>if\<close> test it.\<close>

fun truthy :: "jsval \<Rightarrow> bool" where
  "truthy Undefined = False"
| "truthy Null = False"
| "truthy (JBool b) = b"
| "truthy (JNum n) = (n \<noteq> 0)"
| "truthy (JStr s) = (s \<noteq> [])"
| "truthy (JObj kvs) = True"
| "truthy (JFun f) = True"

text \<open>\<open>a && b\<close> where \<open>b\<close> is a value already: the left operand when it is falsy.\<close>

definition js_and :: "jsval \<Rightarrow> jsval \<Rightarrow> jsval" where
  "js_and a b = (if truthy a then b else a)"

text \<open>A destructuring default \<open>{ k = d } = props\<close>: it applies to \<open>undefined\<close> only.\<close>

definition js_default :: "jsval \<Rightarrow> jsval \<Rightarrow> jsval" where
  "js_default v d = (if v = Undefined then d else v)"

text \<open>Decimal digits of a natural number, for a number inside a template string.\<close>

function show_nat :: "nat \<Rightarrow> string" where
  "show_nat n =
     (if n < 10 then [''0123456789'' ! n]
      else show_nat (n div 10) @ [''0123456789'' ! (n mod 10)])"
  by pat_completeness auto
termination
  by (relation "measure id") auto

declare show_nat.simps [simp del]

text \<open>What a template string \<open>`${v}`\<close> writes for a value.\<close>

fun toString :: "jsval \<Rightarrow> string" where
  "toString Undefined = ''undefined''"
| "toString Null = ''null''"
| "toString (JBool b) = (if b then ''true'' else ''false'')"
| "toString (JNum n) = (if n < 0 then ''-'' @ show_nat (nat (- n)) else show_nat (nat n))"
| "toString (JStr s) = s"
| "toString (JObj kvs) = ''[object Object]''"
| "toString (JFun f) = f"

fun join :: "string \<Rightarrow> string list \<Rightarrow> string" where
  "join sep [] = []"
| "join sep [x] = x"
| "join sep (x # y # ys) = x @ sep @ join sep (y # ys)"

section \<open>Helpers the component imports\<close>

datatype error = ExpectsString

definition toUpperCase_char :: "char \<Rightarrow> char" where
  "toUpperCase_char c =
     (case map_of (zip ''abcdefghijklmnopqrstuvwxyz'' ''ABCDEFGHIJKLMNOPQRSTUVWXYZ'') c of
        None \<Rightarrow> c
      | Some u \<Rightarrow> u)"

text \<open>
  Modelled from the spec: \<open>capitalize\<close> of \<open>@mui/utils\<close> is not among the source files.
  The spec calls its result \<open>PascalCase(value)\<close>, as in \<open>"sizeLg"\<close> for \<open>lg\<close> and
  \<open>"colorPrimary"\<close> for \<open>primary\<close>: the first letter in upper case, the rest unchanged.
  It is a function of strings; given any other value it throws.
\<close>

fun capitalize :: "jsval \<Rightarrow> error + string" where
  "capitalize (JStr []) = Inr []"
| "capitalize (JStr (c # cs)) = Inr (toUpperCase_char c # cs)"
| "capitalize v = Inl ExpectsString"

text \<open>
  Modelled from the spec: \<open>composeClasses\<close> of \<open>@mui/base\<close> is not among the source
  files. Per slot it keeps the entries that are truthy (the tokens), maps each through
  the component's naming function, appends the caller's global class for that token
  after it when there is one, and joins the names with spaces.
\<close>

definition slot_tokens :: "jsval list \<Rightarrow> jsval list" where
  "slot_tokens keys = filter truthy keys"

definition composeClasses ::
    "(string \<times> jsval list) list \<Rightarrow> (jsval \<Rightarrow> string) \<Rightarrow> PropBag \<Rightarrow> (string \<rightharpoonup> string)" where
  "composeClasses slots getUtilityClass classes =
     map_of (map (\<lambda>(slot, keys).
       (slot,
        join '' '' (concat (map (\<lambda>key.
          getUtilityClass key #
            (if truthy (js_get classes (toString key))
             then [toString (js_get classes (toString key))] else []))
          (slot_tokens keys))))) slots)"

text \<open>
  \<open>clsx\<close> (an external package). \<open>toVal\<close> is the text of one argument: a string
  or a number as it is, an object as its keys whose values are truthy, separated by
  spaces, anything else as the empty string. \<open>clsx\<close> appends the non-empty texts of
  its truthy arguments, in order, with one space between them.
\<close>

definition clsx_append :: "string \<Rightarrow> string \<Rightarrow> string" where
  "clsx_append str x = (if str = [] then [] else str @ '' '') @ x"

fun toVal :: "jsval \<Rightarrow> string" where
  "toVal (JStr s) = s"
| "toVal (JNum n) = toString (JNum n)"
| "toVal (JObj kvs) = foldl clsx_append [] (map fst (filter (\<lambda>kv. truthy (snd kv)) kvs))"
| "toVal v = []"

definition clsx :: "jsval list \<Rightarrow> string" where
  "clsx args =
     foldl (\<lambda>str tmp. if truthy tmp \<and> toVal tmp \<noteq> [] then clsx_append str (toVal tmp) else str)
       [] args"

section \<open>Theme defaults\<close>

text \<open>
  Modelled from the spec: \<open>useThemeProps\<close> of \<open>../styles\<close> (the spec's
  \<open>resolveThemeDefaults\<close>) is not among the source files. It looks up the defaults of
  the component's name; every default key that is missing in the input props, or present
  there as \<open>undefined\<close>, gets the default value; every other key keeps the input's
  value. A name with no defaults returns the input props unchanged.
\<close>

definition resolveThemeDefaults :: "(string \<rightharpoonup> PropBag) \<Rightarrow> string \<Rightarrow> PropBag \<Rightarrow> PropBag" where
  "resolveThemeDefaults themeDefaults name inputProps =
     (case themeDefaults name of
        None \<Rightarrow> inputProps
      | Some defaults \<Rightarrow>
          (\<lambda>k. case defaults k of
                 None \<Rightarrow> inputProps k
               | Some d \<Rightarrow> if js_get inputProps k = Undefined then Some d else inputProps k))"

section \<open>Slots\<close>

text \<open>
  The argument of \<open>useSlot\<close>. A config with no \<open>ref\<close> has \<open>cfg_ref = None\<close>. The last
  two fields are optional parts of a config: \<open>additionalProps\<close>, the slot's static default
  props, and the derivation of the slot's style variables from the owner state. A call
  that gives neither has no default props and no variables.
\<close>

record SlotConfig =
  cfg_ref :: "jsval option"
  cfg_className :: jsval
  cfg_elementType :: jsval
  cfg_externalForwardedProps :: PropBag
  cfg_ownerState :: PropBag
  cfg_additionalProps :: PropBag
  cfg_styleVariables :: "PropBag \<Rightarrow> (string \<times> jsval) list"

record ResolvedSlot =
  renderTarget :: jsval
  finalProps :: PropBag
  slot_ref :: "jsval option"
  slot_ownerState :: PropBag

text \<open>The own properties of an object value, as a dictionary and as a list.\<close>

fun fields :: "jsval \<Rightarrow> PropBag" where
  "fields (JObj kvs) = map_of kvs"
| "fields v = Map.empty"

fun object_entries :: "jsval \<Rightarrow> (string \<times> jsval) list" where
  "object_entries (JObj kvs) = kvs"
| "object_entries v = []"

text \<open>
  Modelled from the spec: \<open>useSlot\<close> of \<open>../utils/useSlot\<close> (the spec's
  \<open>resolveSlot\<close>) is not among the source files. The caller's overrides are two objects
  among the forwarded props, both keyed by slot name: \<open>slots\<close>, the render targets, and
  \<open>slotProps\<close>, the props for a slot.

  The render target is the caller's override component or tag for this slot name when
  there is one, and the config's \<open>elementType\<close> otherwise.

  The final props are, from the lowest layer to the highest, a later layer winning on a
  key: (a) the slot's static default props; (b) the style variables computed from the
  owner state, which are entries of \<open>style\<close>; (c) the forwarded props, without the two
  override tables; (d) the caller's props for this slot. Two keys are not overwritten:
  \<open>style\<close> is the merge of the layers' style objects, an entry of a higher layer before
  the same entry of a lower one; \<open>className\<close> is (e) the internal class names, the
  default props' and then the config's computed ones, followed by the external ones, the
  forwarded and then the slot props'.

  The ref and the owner state of the config are handed on.
\<close>

definition caller_override :: "PropBag \<Rightarrow> string \<Rightarrow> jsval" where
  "caller_override external name = js_get (fields (js_get external ''slots'')) name"

definition caller_slotProps :: "PropBag \<Rightarrow> string \<Rightarrow> PropBag" where
  "caller_slotProps external name = fields (js_get (fields (js_get external ''slotProps'')) name)"

definition useSlot :: "string \<Rightarrow> SlotConfig \<Rightarrow> ResolvedSlot" where
  "useSlot name config =
     (let external = cfg_externalForwardedProps config;
          override = caller_override external name;
          additional = cfg_additionalProps config;
          variables = cfg_styleVariables config (cfg_ownerState config);
          forwarded = external |` (- {''slots'', ''slotProps''});
          slotProps = caller_slotProps external name;
          style = object_entries (js_get slotProps ''style'')
                  @ object_entries (js_get forwarded ''style'')
                  @ variables
                  @ object_entries (js_get additional ''style'');
          merged = additional ++ forwarded ++ slotProps
      in \<lparr> renderTarget = (if truthy override then override else cfg_elementType config),
           finalProps =
             (if style = [] then merged else merged(''style'' \<mapsto> JObj style))
               (''className'' \<mapsto>
                  JStr (clsx [js_get additional ''className'', cfg_className config,
                              js_get forwarded ''className'', js_get slotProps ''className''])),
           slot_ref = cfg_ref config,
           slot_ownerState = cfg_ownerState config \<rparr>)"

section \<open>FormControl\<close>

text \<open>
  What the component reads from outside its file and the source files do not hold: the
  build mode, the theme's default props by component name, the \<open>useId\<close> hook (from the
  \<open>id\<close> prop to the id in use) and the naming function of \<open>formControlClasses\<close>.
\<close>

record env =
  NODE_ENV :: string
  themeDefaults :: "string \<rightharpoonup> PropBag"
  useId :: "jsval \<Rightarrow> jsval"
  getFormControlUtilityClass :: "jsval \<Rightarrow> string"

text \<open>\<open>v && `${prefix}${capitalize(v)}`\<close>: the right operand is evaluated for a truthy \<open>v\<close> only.\<close>

definition and_capitalized :: "jsval \<Rightarrow> string \<Rightarrow> error + jsval" where
  "and_capitalized v prefix =
     (if truthy v
      then (case capitalize v of Inl e \<Rightarrow> Inl e | Inr s \<Rightarrow> Inr (JStr (prefix @ s)))
      else Inr v)"

text \<open>The array \<open>slots.root\<close> of \<open>useUtilityClasses\<close>, entries in the order written.\<close>

definition slots_root :: "PropBag \<Rightarrow> error + jsval list" where
  "slots_root os =
     (let disabled = js_get os ''disabled'';
          error = js_get os ''error'';
          size = js_get os ''size'';
          color = js_get os ''color'';
          orientation = js_get os ''orientation''
      in case and_capitalized color ''color'' of
           Inl e \<Rightarrow> Inl e
         | Inr colorKey \<Rightarrow>
             (case and_capitalized size ''size'' of
                Inl e \<Rightarrow> Inl e
              | Inr sizeKey \<Rightarrow>
                  Inr [JStr ''root'',
                       orientation,
                       js_and disabled (JStr ''disabled''),
                       js_and error (JStr ''error''),
                       colorKey,
                       sizeKey]))"

definition useUtilityClasses :: "(jsval \<Rightarrow> string) \<Rightarrow> PropBag \<Rightarrow> error + (string \<rightharpoonup> string)" where
  "useUtilityClasses getUtilityClass os =
     (case slots_root os of
        Inl e \<Rightarrow> Inl e
      | Inr root \<Rightarrow> Inr (composeClasses [(''root'', root)] getUtilityClass Map.empty))"

text \<open>The tokens of the root slot: the entries of \<open>slots.root\<close> that \<open>composeClasses\<close> keeps.\<close>

definition root_tokens :: "PropBag \<Rightarrow> error + jsval list" where
  "root_tokens os =
     (case slots_root os of Inl e \<Rightarrow> Inl e | Inr root \<Rightarrow> Inr (slot_tokens root))"

text \<open>
  An object literal \<open>{...base, k1: v1, ..., kn: vn}\<close>: the spread first, then each
  written key in turn, a later write replacing an earlier one.
\<close>

definition buildOwnerState :: "PropBag \<Rightarrow> (string \<times> jsval) list \<Rightarrow> PropBag" where
  "buildOwnerState resolvedProps internalState =
     foldl (\<lambda>obj (k, v). obj(k \<mapsto> v)) resolvedProps internalState"

text \<open>The values the component computes before it builds \<open>ownerState\<close>, as it writes them there.\<close>

definition FormControl_internalState :: "env \<Rightarrow> PropBag \<Rightarrow> (string \<times> jsval) list" where
  "FormControl_internalState e props =
     (let idOverride = js_get props ''id'';
          component = js_default (js_get props ''component'') (JStr ''div'');
          disabled = js_default (js_get props ''disabled'') (JBool False);
          required = js_default (js_get props ''required'') (JBool False);
          error = js_default (js_get props ''error'') (JBool False);
          color = js_get props ''color'';
          size = js_default (js_get props ''size'') (JStr ''md'');
          orientation = js_default (js_get props ''orientation'') (JStr ''vertical'');
          id = useId e idOverride
      in [(''id'', id), (''component'', component), (''color'', color),
          (''disabled'', disabled), (''error'', error), (''required'', required),
          (''size'', size), (''orientation'', orientation)])"

definition FormControl_ownerState :: "env \<Rightarrow> PropBag \<Rightarrow> PropBag" where
  "FormControl_ownerState e props = buildOwnerState props (FormControl_internalState e props)"

text \<open>The rest \<open>...other\<close> of the destructuring: the props without the keys it names.\<close>

definition FormControl_other :: "PropBag \<Rightarrow> PropBag" where
  "FormControl_other props =
     props |` (- {''id'', ''className'', ''component'', ''disabled'', ''required'', ''error'',
                  ''color'', ''size'', ''orientation''})"

text \<open>
  What one mounted instance keeps between renders: the \<open>helperText\<close> state (an element or
  \<open>null\<close>), the \<open>registeredInput\<close> ref, and, to observe \<open>console.error\<close>, the
  messages written so far.
\<close>

type_synonym HTMLElement = nat

record instance_state =
  helperText :: "HTMLElement option"
  registeredInput :: bool
  console_error :: "string list"

definition initial_state :: instance_state where
  "initial_state = \<lparr> helperText = None, registeredInput = False, console_error = [] \<rparr>"

definition setHelperText :: "HTMLElement option \<Rightarrow> instance_state \<Rightarrow> instance_state" where
  "setHelperText el st = st\<lparr> helperText := el \<rparr>"

definition registeredInput_message :: string where
  "registeredInput_message =
     join [CHR 0x0A]
       [''Joy: A FormControl can contain only one Input, Textarea, or Select component'',
        ''You should not mix those components inside a single FormControl instance'']"

text \<open>The function \<open>registerEffect\<close> returns: the cleanup of one registration.\<close>

definition registerEffect_cleanup :: "instance_state \<Rightarrow> instance_state" where
  "registerEffect_cleanup st = st\<lparr> registeredInput := False \<rparr>"

text \<open>One call of \<open>registerEffect\<close>: the state after it and the cleanup it returns.\<close>

definition registerEffect_call ::
    "instance_state \<Rightarrow> instance_state \<times> (instance_state \<Rightarrow> instance_state)" where
  "registerEffect_call st =
     (let st1 = (if registeredInput st
                 then st\<lparr> console_error := console_error st @ [registeredInput_message] \<rparr>
                 else st)
      in (st1\<lparr> registeredInput := True \<rparr>, registerEffect_cleanup))"

text \<open>\<open>registerEffect\<close> is assigned outside production only: \<open>None\<close> is \<open>undefined\<close>.\<close>

definition registerEffect ::
    "env \<Rightarrow> (instance_state \<Rightarrow> instance_state \<times> (instance_state \<Rightarrow> instance_state)) option" where
  "registerEffect e = (if NODE_ENV e \<noteq> ''production'' then Some registerEffect_call else None)"

record FormControlContextValue =
  ctx_disabled :: jsval
  ctx_required :: jsval
  ctx_error :: jsval
  ctx_color :: jsval
  ctx_size :: jsval
  ctx_htmlFor :: jsval
  ctx_labelId :: jsval
  ctx_aria_describedby :: jsval
  ctx_setHelperText :: "HTMLElement option \<Rightarrow> instance_state \<Rightarrow> instance_state"
  ctx_registerEffect ::
    "(instance_state \<Rightarrow> instance_state \<times> (instance_state \<Rightarrow> instance_state)) option"

text \<open>A local constant of the render that \<open>ownerState\<close> is written from, by its name.\<close>

definition FormControl_local :: "env \<Rightarrow> PropBag \<Rightarrow> string \<Rightarrow> jsval" where
  "FormControl_local e props x = js_get (map_of (FormControl_internalState e props)) x"

definition formControlContextValue :: "env \<Rightarrow> PropBag \<Rightarrow> instance_state \<Rightarrow> FormControlContextValue" where
  "formControlContextValue e props st =
     (let id = FormControl_local e props ''id''
      in \<lparr> ctx_disabled = FormControl_local e props ''disabled'',
           ctx_required = FormControl_local e props ''required'',
           ctx_error = FormControl_local e props ''error'',
           ctx_color = FormControl_local e props ''color'',
           ctx_size = FormControl_local e props ''size'',
           ctx_htmlFor = id,
           ctx_labelId = JStr (toString id @ ''-label''),
           ctx_aria_describedby =
             (case helperText st of
                Some el \<Rightarrow> JStr (toString id @ ''-helper-text'')
              | None \<Rightarrow> Undefined),
           ctx_setHelperText = setHelperText,
           ctx_registerEffect = registerEffect e \<rparr>)"

text \<open>The styled root element, known by its name only.\<close>

definition FormControlRoot :: jsval where
  "FormControlRoot = JFun ''FormControlRoot''"

text \<open>
  The config of the one \<open>useSlot\<close> call of a render, for the root slot. The call gives
  no \<open>additionalProps\<close> and no style variables: the variables of the root element are
  styles of \<open>FormControlRoot\<close> itself and do not pass through \<open>useSlot\<close>.
\<close>

definition FormControl_rootConfig :: "env \<Rightarrow> PropBag \<Rightarrow> jsval \<Rightarrow> error + SlotConfig" where
  "FormControl_rootConfig e props ref =
     (let className = js_get props ''className'';
          component = js_default (js_get props ''component'') (JStr ''div'');
          other = FormControl_other props;
          os = FormControl_ownerState e props
      in case useUtilityClasses (getFormControlUtilityClass e) os of
           Inl err \<Rightarrow> Inl err
         | Inr classes \<Rightarrow>
             Inr \<lparr> cfg_ref = Some ref,
                   cfg_className =
                     JStr (clsx [case classes ''root'' of None \<Rightarrow> Undefined | Some c \<Rightarrow> JStr c,
                                 className]),
                   cfg_elementType = FormControlRoot,
                   cfg_externalForwardedProps = other(''component'' \<mapsto> component),
                   cfg_ownerState = os,
                   cfg_additionalProps = Map.empty,
                   cfg_styleVariables = (\<lambda>os. []) \<rparr>)"

text \<open>
  One render: the context value given to the descendants and the slots resolved, each
  with its name. The render writes nothing to the instance's state.
\<close>

record FormControlRender =
  provided :: FormControlContextValue
  resolved :: "(string \<times> ResolvedSlot) list"

definition FormControl :: "env \<Rightarrow> PropBag \<Rightarrow> jsval \<Rightarrow> instance_state \<Rightarrow> error + FormControlRender" where
  "FormControl e inProps ref st =
     (let props = resolveThemeDefaults (themeDefaults e) ''JoyFormControl'' inProps
      in case FormControl_rootConfig e props ref of
           Inl err \<Rightarrow> Inl err
         | Inr config \<Rightarrow>
             Inr \<lparr> provided = formControlContextValue e props st,
                   resolved = [(''root'', useSlot ''root'' config)] \<rparr>)"

section \<open>Components in general\<close>

text \<open>
  Modelled from the spec: the render pass of a component in general is not among the
  source files (only FormControl's is). A component declares its slots once; one of them
  receives the forwarded ref: the slot marked as the ref target when one is marked, the
  slot named \<open>root\<close> otherwise. A render resolves every declared slot, each from the
  config the component builds for it, with the slot's declared default render target.
\<close>

record SlotDescriptor =
  slot_name :: string
  slot_defaultRenderTarget :: jsval
  slot_refTarget :: bool

definition ref_target :: "SlotDescriptor list \<Rightarrow> string" where
  "ref_target slots =
     (case filter slot_refTarget slots of [] \<Rightarrow> ''root'' | d # ds \<Rightarrow> slot_name d)"

definition render_slots ::
    "SlotDescriptor list \<Rightarrow> (string \<Rightarrow> SlotConfig) \<Rightarrow> jsval \<Rightarrow> (string \<times> ResolvedSlot) list" where
  "render_slots slots config ref =
     map (\<lambda>d. (slot_name d,
                useSlot (slot_name d)
                  ((config (slot_name d))
                     \<lparr> cfg_ref := (if slot_name d = ref_target slots then Some ref else None),
                       cfg_elementType := slot_defaultRenderTarget d \<rparr>)))
       slots"

definition FormControl_slots :: "SlotDescriptor list" where
  "FormControl_slots =
     [\<lparr> slot_name = ''root'', slot_defaultRenderTarget = FormControlRoot, slot_refTarget = False \<rparr>]"

text \<open>The caller adds an override of the render target of slot \<open>k\<close> to the props it passes.\<close>

definition add_override :: "string \<Rightarrow> jsval \<Rightarrow> PropBag \<Rightarrow> PropBag" where
  "add_override k v external =
     external(''slots'' \<mapsto>
       JObj ((k, v) # (case js_get external ''slots'' of JObj kvs \<Rightarrow> kvs | _ \<Rightarrow> [])))"

section \<open>Predicates of the properties\<close>

text \<open>The prop types \<open>boolean | undefined\<close> and \<open>string | undefined\<close>.\<close>

definition optional_boolean :: "jsval \<Rightarrow> bool" where
  "optional_boolean v = (case v of Undefined \<Rightarrow> True | JBool b \<Rightarrow> True | _ \<Rightarrow> False)"

definition optional_string :: "jsval \<Rightarrow> bool" where
  "optional_string v = (case v of Undefined \<Rightarrow> True | JStr s \<Rightarrow> True | _ \<Rightarrow> False)"

text \<open>The token an enum dimension gives: its name, then the value with a capital first letter.\<close>

definition enum_token :: "string \<Rightarrow> jsval \<Rightarrow> jsval list" where
  "enum_token dimension v =
     (case v of JStr (c # cs) \<Rightarrow> [JStr (dimension @ toUpperCase_char c # cs)] | _ \<Rightarrow> [])"

definition is_color_token :: "jsval \<Rightarrow> bool" where
  "is_color_token t = (case t of JStr s \<Rightarrow> take 5 s = ''color'' | _ \<Rightarrow> False)"

text \<open>The class names an argument of \<open>clsx\<close> stands for, and two such texts one after the other.\<close>

definition class_text :: "jsval \<Rightarrow> string" where
  "class_text v = (if truthy v then toVal v else [])"

definition concat_names :: "string \<Rightarrow> string \<Rightarrow> string" where
  "concat_names a b = (if a = [] then b else if b = [] then a else a @ '' '' @ b)"

text \<open>
  An environment and props to evaluate the component on: a development build, no theme
  defaults, an id hook that keeps a given id and otherwise generates \<open>mui-1\<close>, and class
  names made of the component's name and the token. The props give a \<open>className\<close> and,
  for the root slot, slot props with a \<open>className\<close> and an \<open>id\<close>. The config is one a
  component could build for a slot.
\<close>

definition example_env :: env where
  "example_env =
     \<lparr> NODE_ENV = ''development'',
       themeDefaults = Map.empty,
       useId = (\<lambda>idOverride. if idOverride = Undefined \<or> idOverride = Null
                               then JStr ''mui-1'' else idOverride),
       getFormControlUtilityClass = (\<lambda>slot. ''JoyFormControl-'' @ toString slot) \<rparr>"

definition example_props :: PropBag where
  "example_props =
     [''orientation'' \<mapsto> JStr ''horizontal'', ''className'' \<mapsto> JStr ''my-form'',
      ''children'' \<mapsto> JStr ''text'',
      ''slotProps'' \<mapsto>
        JObj [(''root'', JObj [(''className'', JStr ''sp''), (''id'', JStr ''x'')])]]"

definition example_config :: SlotConfig where
  "example_config =
     \<lparr> cfg_ref = None,
       cfg_className = JStr ''c'',
       cfg_elementType = FormControlRoot,
       cfg_externalForwardedProps = example_props,
       cfg_ownerState = Map.empty,
       cfg_additionalProps = [''className'' \<mapsto> JStr ''d'', ''role'' \<mapsto> JStr ''group''],
       cfg_styleVariables = (\<lambda>os. [(''--gap'', JStr ''4px'')]) \<rparr>"

section \<open>Utility classes\<close>

lemma and_capitalized_string:
  "optional_string v \<Longrightarrow>
   and_capitalized v prefix =
     Inr (case v of JStr (c # cs) \<Rightarrow> JStr (prefix @ toUpperCase_char c # cs) | _ \<Rightarrow> v)"
  by (cases v rule: capitalize.cases) (simp_all add: and_capitalized_def optional_string_def)

lemma slot_tokens_and_capitalized:
  "optional_string v \<Longrightarrow>
   slot_tokens [case v of JStr (c # cs) \<Rightarrow> JStr (prefix @ toUpperCase_char c # cs) | _ \<Rightarrow> v]
     = enum_token prefix v"
  by (cases v rule: capitalize.cases)
    (simp_all add: slot_tokens_def enum_token_def optional_string_def)

lemma slot_tokens_js_and:
  "optional_boolean v \<Longrightarrow>
   slot_tokens [js_and v (JStr (c # cs))] = (if v = JBool True then [JStr (c # cs)] else [])"
  by (cases v) (simp_all add: slot_tokens_def js_and_def optional_boolean_def)

lemma slot_tokens_Cons: "slot_tokens (x # xs) = slot_tokens [x] @ slot_tokens xs"
  by (simp add: slot_tokens_def)

text \<open>
  C1, as amended. For an owner state whose \<open>disabled\<close> and \<open>error\<close> are booleans or
  undefined and whose \<open>color\<close> and \<open>size\<close> are strings or undefined, the tokens of the
  root slot are, in this order: \<open>root\<close>; the value of \<open>orientation\<close> itself when it is
  truthy (defined and non-empty), with no dimension name before it; \<open>disabled\<close> exactly
  when \<open>disabled\<close> is true; \<open>error\<close> exactly when \<open>error\<close> is true; \<open>color\<close> followed by
  the capitalised value exactly when \<open>color\<close> is a non-empty string; \<open>size\<close> followed by
  the capitalised value exactly when \<open>size\<close> is a non-empty string. A dimension whose
  value is undefined or empty gives no token.
\<close>

theorem root_tokens_by_dimension:
  assumes "optional_boolean (js_get os ''disabled'')"
    and "optional_boolean (js_get os ''error'')"
    and "optional_string (js_get os ''color'')"
    and "optional_string (js_get os ''size'')"
  shows "root_tokens os =
    Inr ([JStr ''root'']
       @ (if truthy (js_get os ''orientation'') then [js_get os ''orientation''] else [])
       @ (if js_get os ''disabled'' = JBool True then [JStr ''disabled''] else [])
       @ (if js_get os ''error'' = JBool True then [JStr ''error''] else [])
       @ enum_token ''color'' (js_get os ''color'')
       @ enum_token ''size'' (js_get os ''size''))"
proof -
  have c: "and_capitalized (js_get os ''color'') ''color'' =
      Inr (case js_get os ''color'' of
             JStr (c # cs) \<Rightarrow> JStr (''color'' @ toUpperCase_char c # cs)
           | _ \<Rightarrow> js_get os ''color'')"
    using assms(3) by (rule and_capitalized_string)
  have s: "and_capitalized (js_get os ''size'') ''size'' =
      Inr (case js_get os ''size'' of
             JStr (c # cs) \<Rightarrow> JStr (''size'' @ toUpperCase_char c # cs)
           | _ \<Rightarrow> js_get os ''size'')"
    using assms(4) by (rule and_capitalized_string)
  have o: "slot_tokens [js_get os ''orientation''] =
      (if truthy (js_get os ''orientation'') then [js_get os ''orientation''] else [])"
    by (simp add: slot_tokens_def)
  have r: "slot_tokens [JStr ''root''] = [JStr ''root'']"
    by (simp add: slot_tokens_def)
  show ?thesis
    unfolding root_tokens_def slots_root_def Let_def c s
    apply (simp only: sum.case)
    apply (subst slot_tokens_Cons, subst r)
    apply (subst slot_tokens_Cons, subst o)
    apply (subst slot_tokens_Cons, subst slot_tokens_js_and [OF assms(1)])
    apply (subst slot_tokens_Cons, subst slot_tokens_js_and [OF assms(2)])
    apply (subst slot_tokens_Cons, subst slot_tokens_and_capitalized [OF assms(3)])
    apply (subst slot_tokens_and_capitalized [OF assms(4)])
    apply simp
    done
qed

theorem root_tokens_by_dimension_witness:
  "optional_boolean (JBool True) \<and> optional_boolean (JBool False)
   \<and> optional_string (JStr ''primary'') \<and> optional_string (JStr ''lg'')
   \<and> root_tokens [''orientation'' \<mapsto> JStr ''vertical'', ''disabled'' \<mapsto> JBool True,
        ''error'' \<mapsto> JBool False, ''color'' \<mapsto> JStr ''primary'', ''size'' \<mapsto> JStr ''lg'']
      = Inr [JStr ''root'', JStr ''vertical'', JStr ''disabled'', JStr ''colorPrimary'',
             JStr ''sizeLg'']"
  using root_tokens_by_dimension [of "[''orientation'' \<mapsto> JStr ''vertical'',
        ''disabled'' \<mapsto> JBool True, ''error'' \<mapsto> JBool False,
        ''color'' \<mapsto> JStr ''primary'', ''size'' \<mapsto> JStr ''lg'']"]
  by (simp add: js_get_def optional_boolean_def optional_string_def enum_token_def
      toUpperCase_char_def)

text \<open>
  C1 as the spec states it fails for \<open>orientation\<close>: with \<open>orientation = "horizontal"\<close>
  the tokens hold \<open>horizontal\<close>, and the token made of the dimension's name and the
  capitalised value, \<open>orientationHorizontal\<close>, is not among them.
\<close>

theorem orientation_token_counterexample:
  "root_tokens [''orientation'' \<mapsto> JStr ''horizontal'', ''size'' \<mapsto> JStr ''md'',
        ''disabled'' \<mapsto> JBool False, ''error'' \<mapsto> JBool False]
     = Inr [JStr ''root'', JStr ''horizontal'', JStr ''sizeMd'']
   \<and> and_capitalized (JStr ''horizontal'') ''orientation'' = Inr (JStr ''orientationHorizontal'')
   \<and> JStr ''orientationHorizontal''
        \<notin> set [JStr ''root'', JStr ''horizontal'', JStr ''sizeMd'']"
  by (simp add: root_tokens_def slots_root_def and_capitalized_def js_get_def js_and_def
      slot_tokens_def toUpperCase_char_def Let_def)

text \<open>
  C2. An owner state with \<open>orientation = "horizontal"\<close>, \<open>size = "sm"\<close> and \<open>color\<close>
  undefined composes: the tokens of the root slot include \<open>horizontal\<close> and \<open>sizeSm\<close>,
  and none of them is a color token (a string that starts with \<open>color\<close>).
\<close>

theorem scenario_horizontal_sm:
  assumes "js_get os ''orientation'' = JStr ''horizontal''"
    and "js_get os ''size'' = JStr ''sm''"
    and "js_get os ''color'' = Undefined"
  shows "\<exists>toks. root_tokens os = Inr toks
           \<and> JStr ''horizontal'' \<in> set toks \<and> JStr ''sizeSm'' \<in> set toks
           \<and> (\<forall>t \<in> set toks. \<not> is_color_token t)"
  using assms
  by (simp add: root_tokens_def slots_root_def Let_def and_capitalized_def slot_tokens_def
      js_and_def is_color_token_def toUpperCase_char_def)

theorem scenario_horizontal_sm_witness:
  "js_get [''orientation'' \<mapsto> JStr ''horizontal'', ''size'' \<mapsto> JStr ''sm''] ''orientation''
     = JStr ''horizontal''
   \<and> js_get [''orientation'' \<mapsto> JStr ''horizontal'', ''size'' \<mapsto> JStr ''sm''] ''size''
     = JStr ''sm''
   \<and> js_get [''orientation'' \<mapsto> JStr ''horizontal'', ''size'' \<mapsto> JStr ''sm''] ''color''
     = Undefined
   \<and> (\<exists>toks. root_tokens [''orientation'' \<mapsto> JStr ''horizontal'', ''size'' \<mapsto> JStr ''sm'']
                 = Inr toks
           \<and> JStr ''horizontal'' \<in> set toks \<and> JStr ''sizeSm'' \<in> set toks
           \<and> (\<forall>t \<in> set toks. \<not> is_color_token t))"
  using scenario_horizontal_sm
    [of "[''orientation'' \<mapsto> JStr ''horizontal'', ''size'' \<mapsto> JStr ''sm'']"]
  by (simp add: js_get_def)

section \<open>Owner state\<close>

lemma buildOwnerState_lookup:
  "buildOwnerState resolvedProps internalState k =
     (case map_of (rev internalState) k of None \<Rightarrow> resolvedProps k | Some v \<Rightarrow> Some v)"
proof (induction internalState arbitrary: resolvedProps)
  case Nil
  show ?case by (simp add: buildOwnerState_def)
next
  case (Cons kv kvs)
  obtain k' v' where kv: "kv = (k', v')" by (cases kv)
  have step: "buildOwnerState resolvedProps (kv # kvs)
      = buildOwnerState (resolvedProps(k' \<mapsto> v')) kvs"
    by (simp add: buildOwnerState_def kv)
  have "buildOwnerState (resolvedProps(k' \<mapsto> v')) kvs k =
      (case map_of (rev kvs) k of None \<Rightarrow> (resolvedProps(k' \<mapsto> v')) k | Some v \<Rightarrow> Some v)"
    by (rule Cons.IH)
  then show ?case
    unfolding step
    by (cases "map_of (rev kvs) k") (simp_all add: kv map_of_append map_add_def)
qed

lemma FormControl_ownerState_get:
  "js_get (FormControl_ownerState e props) k =
     (if k \<in> {''id'', ''component'', ''color'', ''disabled'', ''error'', ''required'',
               ''size'', ''orientation''}
      then FormControl_local e props k else js_get props k)"
  by (simp add: FormControl_ownerState_def FormControl_local_def js_get_def
      buildOwnerState_lookup FormControl_internalState_def Let_def)

lemma FormControl_local_simps:
  "FormControl_local e props ''id'' = useId e (js_get props ''id'')"
  "FormControl_local e props ''component'' = js_default (js_get props ''component'') (JStr ''div'')"
  "FormControl_local e props ''color'' = js_get props ''color''"
  "FormControl_local e props ''disabled'' = js_default (js_get props ''disabled'') (JBool False)"
  "FormControl_local e props ''error'' = js_default (js_get props ''error'') (JBool False)"
  "FormControl_local e props ''required'' = js_default (js_get props ''required'') (JBool False)"
  "FormControl_local e props ''size'' = js_default (js_get props ''size'') (JStr ''md'')"
  "FormControl_local e props ''orientation''
     = js_default (js_get props ''orientation'') (JStr ''vertical'')"
  by (simp_all add: FormControl_local_def FormControl_internalState_def Let_def js_get_def)

text \<open>
  C4. The owner state is the merge of the resolved props and the internal state, the
  internal state last: a key the internal state writes has the internal state's value
  (its last write), whether the props have the key or not, and every other key has the
  props' value. In FormControl the internal state is the eight values the render
  computes (\<open>id\<close>, \<open>component\<close>, \<open>color\<close>, \<open>disabled\<close>, \<open>error\<close>, \<open>required\<close>, \<open>size\<close>,
  \<open>orientation\<close>): the owner state reads each of them as computed, and any other key
  as the props have it.
\<close>

theorem buildOwnerState_precedence:
  "buildOwnerState resolvedProps internalState
     = resolvedProps ++ map_of (rev internalState)
   \<and> buildOwnerState resolvedProps internalState k
     = (case map_of (rev internalState) k of None \<Rightarrow> resolvedProps k | Some v \<Rightarrow> Some v)
   \<and> js_get (FormControl_ownerState e props) k
     = (if k \<in> {''id'', ''component'', ''color'', ''disabled'', ''error'', ''required'',
                 ''size'', ''orientation''}
        then FormControl_local e props k else js_get props k)"
proof -
  have "buildOwnerState resolvedProps internalState x
      = (resolvedProps ++ map_of (rev internalState)) x" for x
    by (simp add: buildOwnerState_lookup map_add_def)
  then have "buildOwnerState resolvedProps internalState
      = resolvedProps ++ map_of (rev internalState)"
    by (rule ext)
  then show ?thesis
    using buildOwnerState_lookup [of resolvedProps internalState k]
      FormControl_ownerState_get [of e props k]
    by simp
qed

text \<open>
  C9. When the props a render starts from have no \<open>size\<close> (missing or undefined) and
  \<open>color\<close> is a string or undefined, the owner state has \<open>size = "md"\<close> and the tokens
  of the root slot hold \<open>sizeMd\<close>. \<open>color\<close> has no default: the owner state has the
  props' value. \<open>orientation\<close> defaults to \<open>vertical\<close>, and \<open>disabled\<close>, \<open>error\<close> and
  \<open>required\<close> to false, each when the props' value is undefined.
\<close>

theorem size_defaults_to_md:
  assumes "js_get props ''size'' = Undefined"
    and "optional_string (js_get props ''color'')"
  shows "js_get (FormControl_ownerState e props) ''size'' = JStr ''md''
    \<and> (\<exists>toks. root_tokens (FormControl_ownerState e props) = Inr toks
           \<and> JStr ''sizeMd'' \<in> set toks)
    \<and> js_get (FormControl_ownerState e props) ''color'' = js_get props ''color''
    \<and> js_get (FormControl_ownerState e props) ''orientation''
        = (if js_get props ''orientation'' = Undefined then JStr ''vertical''
           else js_get props ''orientation'')
    \<and> js_get (FormControl_ownerState e props) ''disabled''
        = (if js_get props ''disabled'' = Undefined then JBool False
           else js_get props ''disabled'')
    \<and> js_get (FormControl_ownerState e props) ''error''
        = (if js_get props ''error'' = Undefined then JBool False else js_get props ''error'')
    \<and> js_get (FormControl_ownerState e props) ''required''
        = (if js_get props ''required'' = Undefined then JBool False
           else js_get props ''required'')"
proof -
  have sz: "js_get (FormControl_ownerState e props) ''size'' = JStr ''md''"
    using assms(1) by (simp add: FormControl_ownerState_get FormControl_local_simps js_default_def)
  have col: "js_get (FormControl_ownerState e props) ''color'' = js_get props ''color''"
    by (simp add: FormControl_ownerState_get FormControl_local_simps)
  have "and_capitalized (js_get props ''color'') ''color'' =
      Inr (case js_get props ''color'' of
             JStr (c # cs) \<Rightarrow> JStr (''color'' @ toUpperCase_char c # cs)
           | _ \<Rightarrow> js_get props ''color'')"
    using assms(2) by (rule and_capitalized_string)
  then have toks: "\<exists>toks. root_tokens (FormControl_ownerState e props) = Inr toks
      \<and> JStr ''sizeMd'' \<in> set toks"
    by (simp add: root_tokens_def slots_root_def Let_def sz col and_capitalized_def
        slot_tokens_def toUpperCase_char_def)
  show ?thesis
    using sz col toks
    by (simp add: FormControl_ownerState_get FormControl_local_simps js_default_def)
qed

theorem size_defaults_to_md_witness:
  "js_get example_props ''size'' = Undefined
   \<and> optional_string (js_get example_props ''color'')
   \<and> js_get (FormControl_ownerState example_env example_props) ''size'' = JStr ''md''
   \<and> (\<exists>toks. root_tokens (FormControl_ownerState example_env example_props) = Inr toks
          \<and> JStr ''sizeMd'' \<in> set toks)
   \<and> js_get (FormControl_ownerState example_env example_props) ''color'' = Undefined
   \<and> js_get (FormControl_ownerState example_env example_props) ''orientation''
       = JStr ''horizontal''
   \<and> js_get (FormControl_ownerState example_env example_props) ''disabled'' = JBool False"
  using size_defaults_to_md [of example_props example_env]
  by (simp add: example_props_def js_get_def optional_string_def)

section \<open>Theme defaults are applied once\<close>

text \<open>
  C5. Resolving the theme defaults of a name twice gives what resolving them once
  gives, for a name with defaults and for a name without: after the first pass a default
  key is undefined only where the default itself is, so the second pass changes nothing.
\<close>

theorem resolveThemeDefaults_idempotent:
  "resolveThemeDefaults theme component_name (resolveThemeDefaults theme component_name props)
     = resolveThemeDefaults theme component_name props"
  by (auto simp: resolveThemeDefaults_def js_get_def fun_eq_iff split: option.splits)

section \<open>The render returns\<close>

lemma FormControl_provided:
  "FormControl e inProps ref st = Inr r \<Longrightarrow>
   provided r
     = formControlContextValue e
         (resolveThemeDefaults (themeDefaults e) ''JoyFormControl'' inProps) st"
  by (auto simp: FormControl_def Let_def split: sum.splits)

lemma slots_root_returns:
  assumes "optional_string (js_get os ''color'')" and "optional_string (js_get os ''size'')"
  shows "\<exists>root. slots_root os = Inr root"
  by (simp add: slots_root_def Let_def and_capitalized_string [OF assms(1)]
      and_capitalized_string [OF assms(2)])

lemma FormControl_returns:
  assumes "props = resolveThemeDefaults (themeDefaults e) ''JoyFormControl'' inProps"
    and "optional_string (js_get props ''color'')"
    and "optional_string (js_get props ''size'')"
  shows "\<exists>r. FormControl e inProps ref st = Inr r"
proof -
  have c: "optional_string (js_get (FormControl_ownerState e props) ''color'')"
    using assms(2) by (simp add: FormControl_ownerState_get FormControl_local_simps)
  have s: "optional_string (js_get (FormControl_ownerState e props) ''size'')"
    using assms(3)
    by (simp add: FormControl_ownerState_get FormControl_local_simps js_default_def
        optional_string_def)
  obtain root where "slots_root (FormControl_ownerState e props) = Inr root"
    using slots_root_returns [OF c s] by blast
  then show ?thesis
    by (simp add: FormControl_def Let_def FormControl_rootConfig_def useUtilityClasses_def
        assms(1) [symmetric])
qed

lemma example_props_resolved:
  "resolveThemeDefaults (themeDefaults example_env) ''JoyFormControl'' example_props
     = example_props"
  by (simp add: resolveThemeDefaults_def example_env_def)

lemma example_render_returns:
  "\<exists>r. FormControl example_env example_props ref st = Inr r"
proof -
  have a: "example_props
      = resolveThemeDefaults (themeDefaults example_env) ''JoyFormControl'' example_props"
    by (simp only: example_props_resolved)
  have b: "optional_string (js_get example_props ''color'')"
    by (simp add: example_props_def js_get_def optional_string_def)
  have c: "optional_string (js_get example_props ''size'')"
    by (simp add: example_props_def js_get_def optional_string_def)
  show ?thesis by (rule FormControl_returns [OF a b c])
qed

section \<open>Class names of a slot\<close>

lemma concat_names_Nil: "concat_names a [] = a"
  by (simp add: concat_names_def)

lemma concat_names_Nil_left: "concat_names [] b = b"
  by (simp add: concat_names_def)

lemma concat_names_assoc:
  "concat_names (concat_names a b) c = concat_names a (concat_names b c)"
  by (simp add: concat_names_def)

lemma concat_names_keeps:
  "take (length a) (concat_names a b) = a
   \<and> drop (length (concat_names a b) - length b) (concat_names a b) = b"
  by (simp add: concat_names_def)

lemma clsx_step:
  "(if truthy v \<and> toVal v \<noteq> [] then clsx_append str (toVal v) else str)
     = concat_names str (class_text v)"
  by (simp add: clsx_append_def concat_names_def class_text_def)

lemma clsx_concat_names:
  "clsx args = foldl (\<lambda>str v. concat_names str (class_text v)) [] args"
  by (simp add: clsx_def clsx_step)

lemma clsx_pair: "clsx [a, b] = concat_names (class_text a) (class_text b)"
  by (simp add: clsx_concat_names concat_names_Nil_left)

lemma clsx_four:
  "clsx [a, b, c, d]
     = concat_names (concat_names (class_text a) (class_text b))
         (concat_names (class_text c) (class_text d))"
  by (simp add: clsx_concat_names concat_names_Nil_left concat_names_assoc)

lemma class_text_JStr: "class_text (JStr s) = s"
  by (simp add: class_text_def)

lemma class_text_Undefined: "class_text Undefined = []"
  by (simp add: class_text_def)

lemma useSlot_className:
  "js_get (finalProps (useSlot slot config)) ''className''
     = JStr (concat_names
         (concat_names (class_text (js_get (cfg_additionalProps config) ''className''))
            (class_text (cfg_className config)))
         (concat_names (class_text (js_get (cfg_externalForwardedProps config) ''className''))
            (class_text
               (js_get (caller_slotProps (cfg_externalForwardedProps config) slot)
                  ''className''))))"
proof -
  have f: "js_get (cfg_externalForwardedProps config |` (- {''slots'', ''slotProps''}))
      ''className'' = js_get (cfg_externalForwardedProps config) ''className''"
    by (simp add: js_get_def)
  have "js_get (finalProps (useSlot slot config)) ''className''
      = JStr (clsx [js_get (cfg_additionalProps config) ''className'', cfg_className config,
          js_get (cfg_externalForwardedProps config |` (- {''slots'', ''slotProps''}))
            ''className'',
          js_get (caller_slotProps (cfg_externalForwardedProps config) slot) ''className''])"
    by (simp add: useSlot_def Let_def js_get_def)
  then show ?thesis
    by (simp only: f clsx_four)
qed

lemma composeClasses_root:
  "composeClasses [(''root'', root)] g classes ''root'' \<noteq> None"
  by (simp add: composeClasses_def)

lemma FormControl_root_className:
  assumes "FormControl_rootConfig e props ref = Inr config"
  shows "\<exists>classes internal.
      useUtilityClasses (getFormControlUtilityClass e) (FormControl_ownerState e props)
        = Inr classes
      \<and> classes ''root'' = Some internal
      \<and> cfg_className config
          = JStr (concat_names internal (class_text (js_get props ''className'')))
      \<and> js_get (cfg_externalForwardedProps config) ''className'' = Undefined
      \<and> js_get (cfg_externalForwardedProps config) ''slotProps'' = js_get props ''slotProps''
      \<and> js_get (cfg_additionalProps config) ''className'' = Undefined"
proof -
  obtain classes where c:
    "useUtilityClasses (getFormControlUtilityClass e) (FormControl_ownerState e props)
       = Inr classes"
    using assms by (auto simp: FormControl_rootConfig_def Let_def split: sum.splits)
  then obtain internal where i: "classes ''root'' = Some internal"
    using composeClasses_root by (auto simp: useUtilityClasses_def split: sum.splits)
  show ?thesis
    using assms c i
    by (auto simp: FormControl_rootConfig_def Let_def clsx_pair class_text_JStr
        FormControl_other_def js_get_def restrict_map_def)
qed

text \<open>
  C3. For every slot and config, the \<open>className\<close> of the resolved slot is the internal
  class names (the default props' and the config's computed ones) followed by the
  caller-supplied ones (the forwarded \<open>className\<close> and the \<open>className\<close> of the caller's
  props for the slot), one space between two non-empty parts; it starts with the internal
  names and ends with the caller's, so neither replaces the other. In a render of
  FormControl that returns, the \<open>className\<close> of the resolved root slot is the class names
  composed from the owner state, followed by the caller's \<open>className\<close> prop, followed by
  the \<open>className\<close> of the caller's props for the root slot.
\<close>

theorem className_internal_then_external:
  assumes "FormControl e inProps ref st = Inr r"
    and "props = resolveThemeDefaults (themeDefaults e) ''JoyFormControl'' inProps"
    and "internal = concat_names (class_text (js_get (cfg_additionalProps config) ''className''))
           (class_text (cfg_className config))"
    and "external = concat_names
           (class_text (js_get (cfg_externalForwardedProps config) ''className''))
           (class_text
              (js_get (caller_slotProps (cfg_externalForwardedProps config) slot) ''className''))"
    and "caller = concat_names (class_text (js_get props ''className''))
           (class_text (js_get (caller_slotProps props ''root'') ''className''))"
  shows "js_get (finalProps (useSlot slot config)) ''className''
           = JStr (concat_names internal external)
    \<and> take (length internal) (concat_names internal external) = internal
    \<and> drop (length (concat_names internal external) - length external)
          (concat_names internal external) = external
    \<and> (\<exists>classes composed root.
          useUtilityClasses (getFormControlUtilityClass e) (FormControl_ownerState e props)
            = Inr classes
          \<and> classes ''root'' = Some composed
          \<and> resolved r = [(''root'', root)]
          \<and> js_get (finalProps root) ''className'' = JStr (concat_names composed caller)
          \<and> take (length composed) (concat_names composed caller) = composed
          \<and> drop (length (concat_names composed caller) - length caller)
                (concat_names composed caller) = caller)"
proof -
  have general: "js_get (finalProps (useSlot slot config)) ''className''
      = JStr (concat_names internal external)"
    unfolding assms(3) assms(4) by (rule useSlot_className)
  obtain cfg where cfg: "FormControl_rootConfig e props ref = Inr cfg"
    and r: "resolved r = [(''root'', useSlot ''root'' cfg)]"
    using assms(1) assms(2) by (auto simp: FormControl_def Let_def split: sum.splits)
  from FormControl_root_className [OF cfg] obtain classes composed where
    c: "useUtilityClasses (getFormControlUtilityClass e) (FormControl_ownerState e props)
          = Inr classes"
    and i: "classes ''root'' = Some composed"
    and n: "cfg_className cfg
          = JStr (concat_names composed (class_text (js_get props ''className'')))"
    and x: "js_get (cfg_externalForwardedProps cfg) ''className'' = Undefined"
    and p: "js_get (cfg_externalForwardedProps cfg) ''slotProps'' = js_get props ''slotProps''"
    and d: "js_get (cfg_additionalProps cfg) ''className'' = Undefined"
    by blast
  have sp: "caller_slotProps (cfg_externalForwardedProps cfg) ''root''
      = caller_slotProps props ''root''"
    by (simp add: caller_slotProps_def p)
  have fc: "js_get (finalProps (useSlot ''root'' cfg)) ''className''
      = JStr (concat_names composed caller)"
    by (simp add: useSlot_className n x d sp class_text_JStr class_text_Undefined
        concat_names_Nil concat_names_Nil_left concat_names_assoc assms(5))
  have "\<exists>classes composed root.
          useUtilityClasses (getFormControlUtilityClass e) (FormControl_ownerState e props)
            = Inr classes
          \<and> classes ''root'' = Some composed
          \<and> resolved r = [(''root'', root)]
          \<and> js_get (finalProps root) ''className'' = JStr (concat_names composed caller)
          \<and> take (length composed) (concat_names composed caller) = composed
          \<and> drop (length (concat_names composed caller) - length caller)
                (concat_names composed caller) = caller"
    using c i r fc concat_names_keeps [of composed caller] by blast
  then show ?thesis
    using general concat_names_keeps [of internal external] by blast
qed

section \<open>The render target\<close>

lemma caller_override_add:
  "caller_override (add_override k v external) n
     = (if n = k then v else caller_override external n)"
  by (cases "js_get external ''slots''")
     (simp_all add: caller_override_def add_override_def js_get_def)

lemma add_override_others:
  "x \<noteq> ''slots'' \<Longrightarrow> add_override k v external x = external x"
  by (simp add: add_override_def)

lemma restrict_add_override:
  "''slots'' \<notin> B \<Longrightarrow> add_override k v external |` B = external |` B"
  by (rule ext) (auto simp: restrict_map_def add_override_def)

lemma js_get_add_override:
  "x \<noteq> ''slots'' \<Longrightarrow> js_get (add_override k v external) x = js_get external x"
  by (simp add: js_get_def add_override_def)

lemma caller_slotProps_add_override:
  "caller_slotProps (add_override k v external) n = caller_slotProps external n"
  by (simp add: caller_slotProps_def js_get_add_override)

lemma useSlot_add_override:
  assumes "k \<noteq> slot"
    and "cfg_externalForwardedProps c' = add_override k v (cfg_externalForwardedProps c)"
    and "cfg_className c' = cfg_className c"
    and "cfg_elementType c' = cfg_elementType c"
    and "cfg_ref c' = cfg_ref c"
    and "cfg_ownerState c' = cfg_ownerState c"
    and "cfg_additionalProps c' = cfg_additionalProps c"
    and "cfg_styleVariables c' = cfg_styleVariables c"
  shows "useSlot slot c' = useSlot slot c"
proof -
  have f: "add_override k v (cfg_externalForwardedProps c) |` (- {''slots'', ''slotProps''})
      = cfg_externalForwardedProps c |` (- {''slots'', ''slotProps''})"
    by (rule restrict_add_override) simp
  show ?thesis
    unfolding useSlot_def Let_def assms(2-8) f caller_slotProps_add_override
    using assms(1) by (simp add: caller_override_add)
qed

lemma useSlot_renderTarget:
  "renderTarget (useSlot slot config)
     = (if truthy (caller_override (cfg_externalForwardedProps config) slot)
        then caller_override (cfg_externalForwardedProps config) slot
        else cfg_elementType config)"
  by (simp add: useSlot_def Let_def)

text \<open>
  C7. The render target of a resolved slot is the caller's override for that slot name
  when the caller supplied one (a component or a tag: a truthy value), and the config's
  default render target otherwise. After the caller adds an override for the slot's own
  name, the render target is that override. An override added for a name that no slot of
  the component has changes no resolved slot of a render.
\<close>

theorem override_or_default:
  assumes "k \<notin> slot_name ` set slots"
  shows "renderTarget (useSlot slot config)
           = (if truthy (caller_override (cfg_externalForwardedProps config) slot)
              then caller_override (cfg_externalForwardedProps config) slot
              else cfg_elementType config)
    \<and> renderTarget (useSlot slot
          (config\<lparr> cfg_externalForwardedProps :=
             add_override slot v (cfg_externalForwardedProps config) \<rparr>))
           = (if truthy v then v else cfg_elementType config)
    \<and> render_slots slots
          (\<lambda>n. (configs n)\<lparr> cfg_externalForwardedProps :=
             add_override k v (cfg_externalForwardedProps (configs n)) \<rparr>) ref
           = render_slots slots configs ref"
proof (intro conjI)
  show "renderTarget (useSlot slot config)
           = (if truthy (caller_override (cfg_externalForwardedProps config) slot)
              then caller_override (cfg_externalForwardedProps config) slot
              else cfg_elementType config)"
    by (rule useSlot_renderTarget)
  show "renderTarget (useSlot slot
          (config\<lparr> cfg_externalForwardedProps :=
             add_override slot v (cfg_externalForwardedProps config) \<rparr>))
           = (if truthy v then v else cfg_elementType config)"
    by (simp add: useSlot_renderTarget caller_override_add)
  have "useSlot (slot_name d)
          ((configs (slot_name d))
             \<lparr> cfg_externalForwardedProps :=
                 add_override k v (cfg_externalForwardedProps (configs (slot_name d))),
               cfg_ref := x, cfg_elementType := y \<rparr>)
        = useSlot (slot_name d) ((configs (slot_name d))\<lparr> cfg_ref := x, cfg_elementType := y \<rparr>)"
    if d: "d \<in> set slots" for d x y
  proof -
    have ne: "k \<noteq> slot_name d" using assms d by auto
    show ?thesis
      by (rule useSlot_add_override [OF ne, where v = v]) simp_all
  qed
  then show "render_slots slots
          (\<lambda>n. (configs n)\<lparr> cfg_externalForwardedProps :=
             add_override k v (cfg_externalForwardedProps (configs n)) \<rparr>) ref
           = render_slots slots configs ref"
    by (simp add: render_slots_def)
qed

section \<open>The context value and the registration of a child\<close>

text \<open>
  C10. In a render of FormControl that returns, with \<open>rid\<close> the id in use (what
  \<open>useId\<close> gives for the \<open>id\<close> prop): \<open>aria-describedby\<close> of the context value is
  \<open>rid\<close> followed by \<open>-helper-text\<close> exactly when the \<open>helperText\<close> state is not null,
  and undefined exactly when it is null; \<open>labelId\<close> is \<open>rid\<close> followed by \<open>-label\<close>;
  \<open>htmlFor\<close> is \<open>rid\<close>. The \<open>setHelperText\<close> of the context value sets that state.
\<close>

theorem context_ids:
  assumes "FormControl e inProps ref st = Inr r"
    and "rid = useId e
           (js_get (resolveThemeDefaults (themeDefaults e) ''JoyFormControl'' inProps) ''id'')"
  shows "(ctx_aria_describedby (provided r) = JStr (toString rid @ ''-helper-text'')
            \<longleftrightarrow> helperText st \<noteq> None)
    \<and> (ctx_aria_describedby (provided r) = Undefined \<longleftrightarrow> helperText st = None)
    \<and> ctx_labelId (provided r) = JStr (toString rid @ ''-label'')
    \<and> ctx_htmlFor (provided r) = rid
    \<and> helperText (ctx_setHelperText (provided r) el st) = el"
  using FormControl_provided [OF assms(1)] assms(2)
  by (cases "helperText st")
     (simp_all add: formControlContextValue_def Let_def FormControl_local_def
        FormControl_internalState_def js_get_def setHelperText_def)

text \<open>
  C8. Outside production \<open>registerEffect\<close> is a function. A call of it returns: there is
  no error to return. It sets the registration flag; it writes one message to
  \<open>console.error\<close> when the flag was set already (a registration while another is still
  registered) and none otherwise; it changes nothing else, and a render gives the same
  result after it as before. The cleanup it returns resets the flag and writes nothing,
  so the next registration writes no message.
\<close>

theorem registerEffect_advisory:
  "registerEffect e = (if NODE_ENV e = ''production'' then None else Some registerEffect_call)
   \<and> registeredInput (fst (registerEffect_call st)) = True
   \<and> console_error (fst (registerEffect_call st))
       = console_error st @ (if registeredInput st then [registeredInput_message] else [])
   \<and> helperText (fst (registerEffect_call st)) = helperText st
   \<and> FormControl e inProps ref (fst (registerEffect_call st)) = FormControl e inProps ref st
   \<and> registeredInput (snd (registerEffect_call st) (fst (registerEffect_call st))) = False
   \<and> console_error (snd (registerEffect_call st) (fst (registerEffect_call st)))
       = console_error (fst (registerEffect_call st))
   \<and> console_error
        (fst (registerEffect_call (snd (registerEffect_call st) (fst (registerEffect_call st)))))
       = console_error (fst (registerEffect_call st))"
  by (simp add: registerEffect_def registerEffect_call_def registerEffect_cleanup_def Let_def
      FormControl_def formControlContextValue_def split: sum.splits)

section \<open>The properties on an example render\<close>

lemma example_props_get:
  "js_get example_props ''disabled'' = Undefined"
  "js_get example_props ''error'' = Undefined"
  "js_get example_props ''color'' = Undefined"
  "js_get example_props ''size'' = Undefined"
  "js_get example_props ''orientation'' = JStr ''horizontal''"
  "js_get example_props ''className'' = JStr ''my-form''"
  "js_get example_props ''id'' = Undefined"
  by (simp_all add: example_props_def js_get_def)

lemma example_ownerState_get:
  "js_get (FormControl_ownerState example_env example_props) ''disabled'' = JBool False"
  "js_get (FormControl_ownerState example_env example_props) ''error'' = JBool False"
  "js_get (FormControl_ownerState example_env example_props) ''color'' = Undefined"
  "js_get (FormControl_ownerState example_env example_props) ''size'' = JStr ''md''"
  "js_get (FormControl_ownerState example_env example_props) ''orientation'' = JStr ''horizontal''"
  by (simp_all add: FormControl_ownerState_get FormControl_local_simps js_default_def
      example_props_get)

lemma example_slots_root:
  "slots_root (FormControl_ownerState example_env example_props)
     = Inr [JStr ''root'', JStr ''horizontal'', JBool False, JBool False, Undefined,
            JStr ''sizeMd'']"
  unfolding slots_root_def Let_def example_ownerState_get
  by (simp add: and_capitalized_def js_and_def toUpperCase_char_def)

lemma example_classes:
  "useUtilityClasses (getFormControlUtilityClass example_env)
     (FormControl_ownerState example_env example_props)
   = Inr [''root'' \<mapsto> ''JoyFormControl-root JoyFormControl-horizontal JoyFormControl-sizeMd'']"
  unfolding useUtilityClasses_def example_slots_root
  by (simp add: composeClasses_def slot_tokens_def example_env_def js_get_def)

lemma example_slotProps_className:
  "js_get (caller_slotProps example_props ''root'') ''className'' = JStr ''sp''"
  by (simp add: caller_slotProps_def example_props_def js_get_def)

lemma example_config_get:
  "js_get (cfg_additionalProps example_config) ''className'' = JStr ''d''"
  "cfg_className example_config = JStr ''c''"
  "js_get (cfg_externalForwardedProps example_config) ''className'' = JStr ''my-form''"
  "js_get (caller_slotProps (cfg_externalForwardedProps example_config) ''root'') ''className''
     = JStr ''sp''"
  by (simp_all add: example_config_def example_props_get example_slotProps_className)
    (simp add: js_get_def)

theorem className_internal_then_external_witness:
  "js_get (finalProps (useSlot ''root'' example_config)) ''className'' = JStr ''d c my-form sp''
   \<and> (\<exists>r root. FormControl example_env example_props (JObj []) initial_state = Inr r
          \<and> resolved r = [(''root'', root)]
          \<and> js_get (finalProps root) ''className''
              = JStr ''JoyFormControl-root JoyFormControl-horizontal JoyFormControl-sizeMd my-form sp'')"
proof -
  obtain r where r: "FormControl example_env example_props (JObj []) initial_state = Inr r"
    using example_render_returns by blast
  have p: "example_props
      = resolveThemeDefaults (themeDefaults example_env) ''JoyFormControl'' example_props"
    by (simp only: example_props_resolved)
  have i: "''d c'' = concat_names
      (class_text (js_get (cfg_additionalProps example_config) ''className''))
      (class_text (cfg_className example_config))"
    by (simp add: example_config_get class_text_JStr concat_names_def)
  have x: "''my-form sp'' = concat_names
      (class_text (js_get (cfg_externalForwardedProps example_config) ''className''))
      (class_text (js_get (caller_slotProps (cfg_externalForwardedProps example_config) ''root'')
         ''className''))"
    by (simp add: example_config_get class_text_JStr concat_names_def)
  have c: "''my-form sp'' = concat_names (class_text (js_get example_props ''className''))
      (class_text (js_get (caller_slotProps example_props ''root'') ''className''))"
    by (simp add: example_props_get example_slotProps_className class_text_JStr
        concat_names_def)
  note th = className_internal_then_external [OF r p i x c]
  have general: "js_get (finalProps (useSlot ''root'' example_config)) ''className''
      = JStr ''d c my-form sp''"
    using th by (simp add: concat_names_def)
  from th obtain classes composed root where
    u: "useUtilityClasses (getFormControlUtilityClass example_env)
          (FormControl_ownerState example_env example_props) = Inr classes"
    and k: "classes ''root'' = Some composed"
    and s: "resolved r = [(''root'', root)]"
    and n: "js_get (finalProps root) ''className''
          = JStr (concat_names composed ''my-form sp'')"
    by blast
  have "composed = ''JoyFormControl-root JoyFormControl-horizontal JoyFormControl-sizeMd''"
    using u k unfolding example_classes by auto
  then have "js_get (finalProps root) ''className''
      = JStr ''JoyFormControl-root JoyFormControl-horizontal JoyFormControl-sizeMd my-form sp''"
    using n by (simp add: concat_names_def)
  with r s general show ?thesis by blast
qed

theorem override_or_default_witness:
  "''thumb'' \<notin> slot_name ` set FormControl_slots
   \<and> render_slots FormControl_slots
        (\<lambda>n. example_config
           \<lparr> cfg_externalForwardedProps :=
               add_override ''thumb'' (JStr ''span'') (cfg_externalForwardedProps example_config) \<rparr>)
        (JObj [])
      = render_slots FormControl_slots (\<lambda>n. example_config) (JObj [])
   \<and> renderTarget (useSlot ''root''
        (example_config
           \<lparr> cfg_externalForwardedProps :=
               add_override ''root'' (JStr ''span'') (cfg_externalForwardedProps example_config) \<rparr>))
      = JStr ''span''
   \<and> renderTarget (useSlot ''root'' example_config) = FormControlRoot"
  using override_or_default [of "''thumb''" FormControl_slots "''root''" example_config
      "JStr ''span''" "\<lambda>n. example_config" "JObj []"]
  by (simp add: FormControl_slots_def caller_override_def example_config_def example_props_def
      js_get_def)

theorem context_ids_witness:
  "\<exists>r. FormControl example_env example_props (JObj []) (setHelperText (Some 7) initial_state) = Inr r
     \<and> ctx_aria_describedby (provided r) = JStr ''mui-1-helper-text''
     \<and> ctx_labelId (provided r) = JStr ''mui-1-label''
     \<and> ctx_htmlFor (provided r) = JStr ''mui-1''"
proof -
  obtain r where r: "FormControl example_env example_props (JObj [])
      (setHelperText (Some 7) initial_state) = Inr r"
    using example_render_returns by blast
  have i: "JStr ''mui-1'' = useId example_env
      (js_get (resolveThemeDefaults (themeDefaults example_env) ''JoyFormControl'' example_props)
         ''id'')"
    unfolding example_props_resolved example_props_get by (simp add: example_env_def)
  have h: "helperText (setHelperText (Some 7) initial_state) \<noteq> None"
    by (simp add: setHelperText_def)
  show ?thesis
    using context_ids [OF r i] h r by auto
qed

end
